theory Spec2Isabelle
  imports Complex_Main "HOL-Library.AList" "HOL-Library.Product_Lexorder"
begin

section \<open>Python values shared by the scripts\<close>

text \<open>
  The scripts are Python. Their exceptions become values of \<open>py_error\<close>, and a computation
  that can raise returns \<open>py_error + 'a\<close> with \<open>Inl\<close> for the exception. Exceptions handed
  in by the HTTP client or the operating system carry the text of \<open>str(e)\<close>, which
  \<open>register_user\<close> reads; the others are raised by the interpreter outside every
  \<open>try\<close> of the scripts, where nothing reads their message.

  A measured time is a \<open>real\<close>, and the text that a scenario formats from it is computed
  on that value. The percentile of \<open>load-login.py\<close> is modelled on doubles, each operation
  rounded to the nearest double.
\<close>

datatype py_error =
    TimeoutError string
  | ClientError string
  | OSError string
  | ValueError
  | AttributeError
  | TypeError
  | KeyError
  | IndexError
  | ZeroDivisionError
  | OverflowError

text \<open>\<open>round(x)\<close> of a float: the nearest integer, a tie going to the even one.\<close>

definition py_round :: "real \<Rightarrow> int" where
  "py_round x =
     (let f = \<lfloor>x\<rfloor>; d = x - of_int f
      in if d < 1 / 2 then f
         else if 1 / 2 < d then f + 1
         else if even f then f else f + 1)"

text \<open>\<open>xs[k]\<close>: a negative index counts from the end, an index out of range raises.\<close>

definition py_index :: "'a list \<Rightarrow> int \<Rightarrow> py_error + 'a" where
  "py_index xs k =
     (if 0 \<le> k \<and> k < int (length xs) then Inr (xs ! nat k)
      else if k < 0 \<and> - int (length xs) \<le> k then Inr (xs ! nat (int (length xs) + k))
      else Inl IndexError)"

section \<open>Strings\<close>

text \<open>
  A string is a list of characters, a character standing for a code point below 256.
  \<open>s.startswith(p)\<close>, \<open>sub in s\<close>, \<open>s.split(c)\<close> for a one-character separator and
  \<open>s.split()\<close>, which cuts at runs of white space and returns no empty token.
\<close>

definition startswith :: "string \<Rightarrow> string \<Rightarrow> bool" where
  "startswith p s = (take (length p) s = p)"

fun contains :: "string \<Rightarrow> string \<Rightarrow> bool" where
  "contains sub [] = (sub = [])"
| "contains sub (c # cs) = (startswith sub (c # cs) \<or> contains sub cs)"

fun split_on :: "char \<Rightarrow> string \<Rightarrow> string list" where
  "split_on c [] = [[]]"
| "split_on c (x # xs) =
     (if x = c then [] # split_on c xs
      else (let r = split_on c xs in (x # hd r) # tl r))"

definition is_space :: "char \<Rightarrow> bool" where
  "is_space c = (of_char c \<in> {9, 10, 11, 12, 13, 28, 29, 30, 31, 32, 133, 160 :: nat})"

function py_split :: "string \<Rightarrow> string list" where
  "py_split s =
     (case dropWhile is_space s of
        [] \<Rightarrow> []
      | c # cs \<Rightarrow> takeWhile (\<lambda>x. \<not> is_space x) (c # cs)
                  # py_split (dropWhile (\<lambda>x. \<not> is_space x) (c # cs)))"
  by pat_completeness auto
termination
proof (relation "measure length")
  show "wf (measure length)" by simp
next
  fix s :: string and c cs
  assume d: "dropWhile is_space s = c # cs"
  then have "\<not> is_space c" by (metis hd_dropWhile list.distinct(1) list.sel(1))
  then have "length (dropWhile (\<lambda>x. \<not> is_space x) (c # cs)) \<le> length cs"
    by (simp add: length_dropWhile_le)
  moreover have "length (c # cs) \<le> length s"
    using d length_dropWhile_le [of is_space s] by simp
  ultimately show "(dropWhile (\<lambda>x. \<not> is_space x) (c # cs), s) \<in> measure length"
    by simp
qed

declare py_split.simps [simp del]


section \<open>The built-in \<open>float\<close> on a string\<close>

text \<open>
  \<open>float(s)\<close> strips white space (its own set: the separators \<open>0x1c\<close> to \<open>0x1f\<close>, white
  space for \<open>split\<close>, are not) and accepts
  \<^verbatim>\<open>[sign] (number [exponent] | "inf" | "infinity" | "nan")\<close>, the words in any case, where
  \<^verbatim>\<open>number ::= [digitpart] "." digitpart | digitpart ["."]\<close>,
  \<^verbatim>\<open>exponent ::= ("e" | "E") [sign] digitpart\<close> and a digitpart is a run of digits with
  single underscores allowed between two digits. Anything else raises \<open>ValueError\<close>
  (\<open>None\<close> here). A finite value is kept as the exact decimal value; Python rounds it to
  the nearest double.
\<close>

datatype pyfloat = Finite real | PosInf | NegInf | NaN

definition is_float_space :: "char \<Rightarrow> bool" where
  "is_float_space c = (of_char c \<in> {9, 10, 11, 12, 13, 32, 133, 160 :: nat})"

definition float_strip :: "string \<Rightarrow> string" where
  "float_strip s = rev (dropWhile is_float_space (rev (dropWhile is_float_space s)))"

definition digit_of :: "char \<Rightarrow> nat option" where
  "digit_of c =
     map_of [(CHR ''0'', 0), (CHR ''1'', 1), (CHR ''2'', 2), (CHR ''3'', 3), (CHR ''4'', 4),
             (CHR ''5'', 5), (CHR ''6'', 6), (CHR ''7'', 7), (CHR ''8'', 8), (CHR ''9'', 9)] c"

definition is_digit :: "char \<Rightarrow> bool" where
  "is_digit c = (digit_of c \<noteq> None)"

text \<open>Underscores are allowed only after a digit and before a digit.\<close>

fun underscores_ok :: "char \<Rightarrow> string \<Rightarrow> bool" where
  "underscores_ok prev [] = (prev \<noteq> CHR ''_'')"
| "underscores_ok prev (c # cs) =
     ((if c = CHR ''_'' then is_digit prev else (prev = CHR ''_'' \<longrightarrow> is_digit c))
      \<and> underscores_ok c cs)"

definition digits_value :: "string \<Rightarrow> nat option" where
  "digits_value ds =
     (if ds \<noteq> [] \<and> list_all is_digit ds
      then Some (foldl (\<lambda>n c. 10 * n + the (digit_of c)) 0 ds) else None)"

definition take_sign :: "string \<Rightarrow> bool \<times> string" where
  "take_sign s =
     (case s of
        c # cs \<Rightarrow> if c = CHR ''-'' then (True, cs) else if c = CHR ''+'' then (False, cs)
                  else (False, s)
      | [] \<Rightarrow> (False, s))"

definition py_lower :: "char \<Rightarrow> char" where
  "py_lower c =
     (if 65 \<le> (of_char c :: nat) \<and> (of_char c :: nat) \<le> 90 then char_of (of_char c + 32 :: nat)
      else c)"

definition parse_mantissa :: "string \<Rightarrow> (nat \<times> nat) option" where
  \<comment> \<open>the digits of the number as a natural, and how many of them follow the point\<close>
  "parse_mantissa m =
     (let ip = takeWhile (\<lambda>c. c \<noteq> CHR ''.'') m; r = dropWhile (\<lambda>c. c \<noteq> CHR ''.'') m
      in if r = [] then map_option (\<lambda>n. (n, 0)) (digits_value ip)
         else (let fp = tl r
               in if ip = [] then map_option (\<lambda>n. (n, length fp)) (digits_value fp)
                  else if fp = [] then map_option (\<lambda>n. (n, 0)) (digits_value ip)
                  else (case (digits_value ip, digits_value fp) of
                          (Some a, Some b) \<Rightarrow> Some (a * 10 ^ length fp + b, length fp)
                        | _ \<Rightarrow> None)))"

definition parse_exponent :: "string \<Rightarrow> int option" where
  "parse_exponent e =
     (let (neg, ds) = take_sign e
      in map_option (\<lambda>n. if neg then - int n else int n) (digits_value ds))"

definition py_float :: "string \<Rightarrow> pyfloat option" where
  "py_float s =
     (let t = float_strip s in
      if \<not> underscores_ok (CHR 0x00) t then None
      else
        (let (neg, b) = take_sign (filter (\<lambda>c. c \<noteq> CHR ''_'') t); w = map py_lower b
         in if w = ''inf'' \<or> w = ''infinity'' then Some (if neg then NegInf else PosInf)
            else if w = ''nan'' then Some NaN
            else
              (let m = takeWhile (\<lambda>c. py_lower c \<noteq> CHR ''e'') b;
                   r = dropWhile (\<lambda>c. py_lower c \<noteq> CHR ''e'') b
               in case (parse_mantissa m, if r = [] then Some 0 else parse_exponent (tl r)) of
                    (Some (n, k), Some e) \<Rightarrow>
                      Some (Finite ((if neg then - 1 else 1) * real n
                                    * (if int k \<le> e then 10 ^ nat (e - int k)
                                       else 1 / 10 ^ nat (int k - e))))
                  | _ \<Rightarrow> None)))"

section \<open>Formatting\<close>

text \<open>
  \<open>str\<close> of an integer, and a float under the format \<open>.df\<close> of an f-string: the value
  rounded to \<open>d\<close> decimals, a tie going to the even digit, the sign kept when the rounded
  value is zero.
\<close>

definition digit_char :: "nat \<Rightarrow> char" where
  "digit_char n = ''0123456789abcdef'' ! n"

function str_nat :: "nat \<Rightarrow> string" where
  "str_nat n = (if n < 10 then [digit_char n] else str_nat (n div 10) @ [digit_char (n mod 10)])"
  by pat_completeness auto
termination
  by (relation "measure (\<lambda>n. n)") auto

declare str_nat.simps [simp del]

definition str_int :: "int \<Rightarrow> string" where
  "str_int i = (if i < 0 then CHR ''-'' # str_nat (nat (- i)) else str_nat (nat i))"

definition str_bool :: "bool \<Rightarrow> string" where
  "str_bool b = (if b then ''True'' else ''False'')"

definition fmt_f :: "nat \<Rightarrow> real \<Rightarrow> string" where
  "fmt_f d x =
     (let n = nat (py_round (\<bar>x\<bar> * 10 ^ d));
          frac = str_nat (n mod 10 ^ d)
      in (if x < 0 then ''-'' else '''') @ str_nat (n div 10 ^ d)
         @ (if d = 0 then ''''
            else CHR ''.'' # replicate (d - length frac) (CHR ''0'') @ frac))"

section \<open>Parsed JSON\<close>

text \<open>
  What \<open>resp.json()\<close> returns. No script computes with a number of a body, so a number
  is kept as the text Python prints for it (\<open>0\<close>, \<open>0.0\<close> and \<open>-0.0\<close> are the false ones).
  A dictionary is the list of its items in order, with distinct keys.
\<close>

datatype json =
    JNone
  | JBool bool
  | JNum string
  | JStr string
  | JList "json list"
  | JDict "(string \<times> json) list"

definition truthy :: "json \<Rightarrow> bool" where
  "truthy v =
     (case v of
        JNone \<Rightarrow> False
      | JBool b \<Rightarrow> b
      | JNum t \<Rightarrow> t \<notin> {''0'', ''0.0'', ''-0.0''}
      | JStr s \<Rightarrow> s \<noteq> []
      | JList xs \<Rightarrow> xs \<noteq> []
      | JDict kvs \<Rightarrow> kvs \<noteq> [])"

text \<open>\<open>d.get(k)\<close>, \<open>v[0]\<close> and \<open>v.keys()\<close> on a parsed value.\<close>

definition py_get :: "json \<Rightarrow> string \<Rightarrow> py_error + json" where
  "py_get v k =
     (case v of
        JDict kvs \<Rightarrow> Inr (case map_of kvs k of None \<Rightarrow> JNone | Some x \<Rightarrow> x)
      | _ \<Rightarrow> Inl AttributeError)"

definition py_first :: "json \<Rightarrow> py_error + json" where
  "py_first v =
     (case v of
        JList xs \<Rightarrow> (case xs of [] \<Rightarrow> Inl IndexError | x # _ \<Rightarrow> Inr x)
      | JStr s \<Rightarrow> (case s of [] \<Rightarrow> Inl IndexError | c # _ \<Rightarrow> Inr (JStr [c]))
      | JDict kvs \<Rightarrow> Inl KeyError
      | _ \<Rightarrow> Inl TypeError)"

definition py_keys :: "json \<Rightarrow> py_error + string list" where
  "py_keys v = (case v of JDict kvs \<Rightarrow> Inr (map fst kvs) | _ \<Rightarrow> Inl AttributeError)"

text \<open>
  \<open>repr\<close> of a string: single quotes, unless the string has a single quote and no double
  quote; the quote in use, the backslash and the characters that are not printable are
  escaped.
\<close>

definition printable :: "char \<Rightarrow> bool" where
  "printable c =
     (let n = (of_char c :: nat) in (32 \<le> n \<and> n < 127) \<or> (161 \<le> n \<and> n \<noteq> 173))"

definition repr_char :: "char \<Rightarrow> char \<Rightarrow> string" where
  "repr_char q c =
     (if c = q \<or> c = CHR 0x5C then [CHR 0x5C, c]
      else if c = CHR 0x09 then [CHR 0x5C, CHR ''t'']
      else if c = CHR 0x0A then [CHR 0x5C, CHR ''n'']
      else if c = CHR 0x0D then [CHR 0x5C, CHR ''r'']
      else if printable c then [c]
      else [CHR 0x5C, CHR ''x'', digit_char (of_char c div 16), digit_char (of_char c mod 16)])"

definition repr_str :: "string \<Rightarrow> string" where
  "repr_str s =
     (let q = (if CHR 0x27 \<in> set s \<and> CHR 0x22 \<notin> set s then CHR 0x22 else CHR 0x27)
      in q # concat (map (repr_char q) s) @ [q])"

fun join :: "string \<Rightarrow> string list \<Rightarrow> string" where
  "join sep [] = []"
| "join sep [x] = x"
| "join sep (x # y # ys) = x @ sep @ join sep (y # ys)"

primrec py_repr :: "json \<Rightarrow> string" where
  "py_repr JNone = ''None''"
| "py_repr (JBool b) = str_bool b"
| "py_repr (JNum t) = t"
| "py_repr (JStr s) = repr_str s"
| "py_repr (JList xs) = ''['' @ join '', '' (map py_repr xs) @ '']''"
| "py_repr (JDict kvs) =
     ''{'' @ join '', '' (map (\<lambda>(k, r). repr_str k @ '': '' @ r) (map (map_prod id py_repr) kvs))
     @ ''}''"

definition py_str :: "json \<Rightarrow> string" where
  "py_str v = (case v of JStr s \<Rightarrow> s | _ \<Rightarrow> py_repr v)"

section \<open>The HTTP client\<close>

text \<open>
  The authentication service is outside the scripts: what each request meets is an
  input of the model. A request either raises in the client (\<open>Inl\<close>: a time-out, or any
  other exception, with the text of \<open>str(e)\<close>) or brings a response, whose body is read
  by \<open>resp.text()\<close> or \<open>resp.json()\<close>, each of which can raise in turn. Every request is
  taken to end in one of the two ways.
\<close>

datatype http_error = Timeout string | Failure string

definition err_str :: "http_error \<Rightarrow> string" where
  "err_str e = (case e of Timeout m \<Rightarrow> m | Failure m \<Rightarrow> m)"

definition raise_http :: "http_error \<Rightarrow> py_error" where
  "raise_http e = (case e of Timeout m \<Rightarrow> TimeoutError m | Failure m \<Rightarrow> ClientError m)"

record response =
  resp_status :: int
  resp_text :: "http_error + string"
  resp_json :: "http_error + json"

type_synonym http_result = "http_error + response"

text \<open>
  Sequencing: an exception of the first step is the exception of the whole.
  \<open>await_response\<close> stands for \<open>async with session.get/post(...) as resp\<close>, \<open>await_text\<close> for
  \<open>await resp.text()\<close> and \<open>await_json\<close> for \<open>await resp.json()\<close>, outside a \<open>try\<close>.
\<close>

definition py_bind :: "py_error + 'a \<Rightarrow> ('a \<Rightarrow> py_error + 'b) \<Rightarrow> py_error + 'b" where
  "py_bind m f = (case m of Inl e \<Rightarrow> Inl e | Inr x \<Rightarrow> f x)"

definition await_response :: "http_result \<Rightarrow> py_error + response" where
  "await_response r = (case r of Inl e \<Rightarrow> Inl (raise_http e) | Inr resp \<Rightarrow> Inr resp)"

definition await_text :: "response \<Rightarrow> py_error + string" where
  "await_text resp = (case resp_text resp of Inl e \<Rightarrow> Inl (raise_http e) | Inr t \<Rightarrow> Inr t)"

definition await_json :: "response \<Rightarrow> py_error + json" where
  "await_json resp = (case resp_json resp of Inl e \<Rightarrow> Inl (raise_http e) | Inr v \<Rightarrow> Inr v)"

text \<open>
  \<open>asyncio.gather\<close> joins the tasks and returns their results in the order of the tasks.
  With \<open>return_exceptions=True\<close> an exception is the result of its task; without, an
  exception of a task is raised to the caller (the first in the order of the tasks
  here; in Python the first in time).
\<close>

definition gather_return_exceptions :: "(py_error + 'a) list \<Rightarrow> (py_error + 'a) list" where
  "gather_return_exceptions tasks = tasks"

fun gather :: "(py_error + 'a) list \<Rightarrow> py_error + 'a list" where
  "gather [] = Inr []"
| "gather (t # ts) =
     (case t of
        Inl e \<Rightarrow> Inl e
      | Inr x \<Rightarrow> (case gather ts of Inl e \<Rightarrow> Inl e | Inr xs \<Rightarrow> Inr (x # xs)))"

section \<open>pressure-test.py: the metrics parser\<close>

text \<open>
  \<^verbatim>\<open>
  async def get_metrics(self, session):
      async with session.get(f"{self.base_url}/metrics") as resp:
          text = await resp.text()
          metrics = {}
          for line in text.split('\n'):
              if line.startswith('auth_'):
                  if '{' in line:
                      name = line.split('{')[0]
                      value = float(line.split()[-1])
                      if name not in metrics:
                          metrics[name] = []
                      metrics[name].append(value)
                  elif not line.startswith('#'):
                      parts = line.split()
                      if len(parts) == 2:
                          metrics[parts[0]] = float(parts[1])
          return metrics
  \<close>
  The dictionary \<open>metrics\<close> is an association list in insertion order. It holds a list of
  floats under the name of a line with labels and one float under the name of a line
  without; \<open>append\<close> on a float raises \<open>AttributeError\<close>.
\<close>

datatype metric = Samples "pyfloat list" | Single pyfloat

type_synonym metrics = "(string \<times> metric) list"

definition parse_line :: "string \<Rightarrow> metrics \<Rightarrow> py_error + metrics" where
  "parse_line line metrics =
     (if startswith ''auth_'' line then
        (if CHR ''{'' \<in> set line then
           (let name = hd (split_on (CHR ''{'') line) in
            case py_index (py_split line) (- 1) of
              Inl e \<Rightarrow> Inl e
            | Inr tok \<Rightarrow>
                (case py_float tok of
                   None \<Rightarrow> Inl ValueError
                 | Some v \<Rightarrow>
                     (let metrics' = (if name \<notin> fst ` set metrics
                                      then AList.update name (Samples []) metrics else metrics)
                      in case map_of metrics' name of
                           None \<Rightarrow> Inl KeyError
                         | Some (Single x) \<Rightarrow> Inl AttributeError
                         | Some (Samples vs) \<Rightarrow>
                             Inr (AList.update name (Samples (vs @ [v])) metrics'))))
         else if \<not> startswith ''#'' line then
           (let parts = py_split line in
            if length parts = 2 then
              (case py_float (parts ! 1) of
                 None \<Rightarrow> Inl ValueError
               | Some v \<Rightarrow> Inr (AList.update (parts ! 0) (Single v) metrics))
            else Inr metrics)
         else Inr metrics)
      else Inr metrics)"

fun parse_lines :: "string list \<Rightarrow> metrics \<Rightarrow> py_error + metrics" where
  "parse_lines [] metrics = Inr metrics"
| "parse_lines (line # rest) metrics =
     (case parse_line line metrics of
        Inl e \<Rightarrow> Inl e
      | Inr metrics' \<Rightarrow> parse_lines rest metrics')"

definition parse_metrics :: "string \<Rightarrow> py_error + metrics" where
  "parse_metrics text = parse_lines (split_on (CHR 0x0A) text) []"

section \<open>The built-in \<open>hash\<close> of a string\<close>

text \<open>
  \<open>hash(s)\<close> of a \<open>str\<close> is keyed by a secret that the interpreter draws when the process
  starts (fixed by the environment variable \<open>PYTHONHASHSEED\<close>, random by default) and
  keeps for the life of the process. In CPython 3.11 and later, on a 64-bit build, it is
  SipHash-1-3 of the bytes of the string (one byte per character, for characters below
  256) under the key \<open>(k0, k1)\<close>, read as a signed 64-bit integer, with \<open>-1\<close> replaced by
  \<open>-2\<close>, and 0 for the empty string. Unsigned 64-bit values are integers with the
  wrap-around written out.
  \<^verbatim>\<open>
  #define HALF_ROUND(a,b,c,d,s,t) a += b; c += d; b = ROTATE(b, s) ^ a; d = ROTATE(d, t) ^ c; a = ROTATE(a, 32);
  #define SINGLE_ROUND(v0,v1,v2,v3) HALF_ROUND(v0,v1,v2,v3,13,16); HALF_ROUND(v2,v1,v0,v3,17,21);
  \<close>
\<close>

unbundle bit_operations_syntax

type_synonym sip_state = "int \<times> int \<times> int \<times> int"

definition add64 :: "int \<Rightarrow> int \<Rightarrow> int" where
  "add64 a b = (a + b) mod 2 ^ 64"

definition rotl64 :: "nat \<Rightarrow> int \<Rightarrow> int" where
  "rotl64 n x = (x * 2 ^ n) mod 2 ^ 64 + x div 2 ^ (64 - n)"

fun half_round :: "nat \<Rightarrow> nat \<Rightarrow> sip_state \<Rightarrow> sip_state" where
  "half_round s t (a, b, c, d) =
     (rotl64 32 (add64 a b), rotl64 s b XOR add64 a b, add64 c d, rotl64 t d XOR add64 c d)"

fun swap02 :: "sip_state \<Rightarrow> sip_state" where
  "swap02 (a, b, c, d) = (c, b, a, d)"

definition single_round :: "sip_state \<Rightarrow> sip_state" where
  "single_round v = swap02 (half_round 17 21 (swap02 (half_round 13 16 v)))"

fun xor0 :: "int \<Rightarrow> sip_state \<Rightarrow> sip_state" where
  "xor0 m (v0, v1, v2, v3) = (v0 XOR m, v1, v2, v3)"

fun xor2 :: "int \<Rightarrow> sip_state \<Rightarrow> sip_state" where
  "xor2 m (v0, v1, v2, v3) = (v0, v1, v2 XOR m, v3)"

fun xor3 :: "int \<Rightarrow> sip_state \<Rightarrow> sip_state" where
  "xor3 m (v0, v1, v2, v3) = (v0, v1, v2, v3 XOR m)"

definition absorb :: "int \<Rightarrow> sip_state \<Rightarrow> sip_state" where
  "absorb m v = xor0 m (single_round (xor3 m v))"

fun le64 :: "string \<Rightarrow> int" where
  "le64 [] = 0"
| "le64 (c # cs) = of_char c + 256 * le64 cs"

function sip_blocks :: "int \<Rightarrow> string \<Rightarrow> sip_state \<Rightarrow> sip_state" where
  "sip_blocks src_sz src v =
     (if 8 \<le> length src then sip_blocks src_sz (drop 8 src) (absorb (le64 (take 8 src)) v)
      else absorb ((src_sz * 2 ^ 56) mod 2 ^ 64 + le64 src) v)"
  by pat_completeness auto
termination
  by (relation "measure (\<lambda>(n, src, v). length src)") auto

declare sip_blocks.simps [simp del]

fun fold_state :: "sip_state \<Rightarrow> int" where
  "fold_state (v0, v1, v2, v3) = (v0 XOR v1) XOR (v2 XOR v3)"

definition siphash13 :: "int \<Rightarrow> int \<Rightarrow> string \<Rightarrow> int" where
  "siphash13 k0 k1 src =
     fold_state (single_round (single_round (single_round (xor2 0xff
       (sip_blocks (int (length src)) src
          (k0 XOR 0x736f6d6570736575, k1 XOR 0x646f72616e646f6d,
           k0 XOR 0x6c7967656e657261, k1 XOR 0x7465646279746573))))))"

definition signed64 :: "int \<Rightarrow> int" where
  "signed64 u = (if 2 ^ 63 \<le> u then u - 2 ^ 64 else u)"

definition never_minus_one :: "int \<Rightarrow> int" where
  "never_minus_one x = (if x = - 1 then - 2 else x)"

definition py_hash :: "int \<times> int \<Rightarrow> string \<Rightarrow> int" where
  "py_hash secret s =
     (if s = [] then 0
      else never_minus_one (signed64 (siphash13 (fst secret) (snd secret) s)))"

section \<open>pressure-test.py: the scenarios\<close>

text \<open>
  \<open>get_metrics\<close> fetches the exposition text and parses it; the status of the response is
  not looked at.
\<close>

definition get_metrics :: "http_result \<Rightarrow> py_error + metrics" where
  "get_metrics r = py_bind (await_response r) (\<lambda>resp. py_bind (await_text resp) parse_metrics)"

record TestResult =
  name :: string
  success :: bool
  duration :: real
  details :: string
  metrics :: "metrics option"

text \<open>
  A scenario takes what its requests meet, the time it measures, and \<open>self.results\<close>; it
  returns \<open>self.results\<close> as it leaves it, or the exception that leaves the scenario.
  What the scenarios print is not modelled, except where computing it can raise.

  Test 1.
  \<^verbatim>\<open>
  async def fetch_jwks():
      async with session.get(f"{self.base_url}/.well-known/jwks.json") as resp:
          return await resp.json()

  tasks = [fetch_jwks() for _ in range(concurrency)]
  results = await asyncio.gather(*tasks, return_exceptions=True)
  duration = time.time() - start
  successes = sum(1 for r in results if isinstance(r, dict) and 'keys' in r)
  sample_jwk = results[0] if results and isinstance(results[0], dict) else None
  result = TestResult(name="JWKS Load Test", success=successes == concurrency,
      duration=duration,
      details=f"{successes}/{concurrency} requests succeeded in {duration:.2f}s ({concurrency/duration:.1f} req/s)")
  if sample_jwk:
      print(f"  ... JWKS structure: {list(sample_jwk.keys())}")
      if 'keys' in sample_jwk and sample_jwk['keys']:
          key = sample_jwk['keys'][0]
          print(f"  ... JWK fields: {list(key.keys())}")
          print(f"  ... Algorithm: {key.get('alg')}, Key Type: {key.get('kty')}")
  self.results.append(result)
  \<close>
\<close>

definition fetch_jwks :: "http_result \<Rightarrow> py_error + json" where
  "fetch_jwks r = py_bind (await_response r) await_json"

definition jwks_tasks :: "(nat \<Rightarrow> http_result) \<Rightarrow> int \<Rightarrow> (py_error + json) list" where
  "jwks_tasks net concurrency = map (\<lambda>i. fetch_jwks (net i)) [0..<nat concurrency]"

definition jwks_fanout :: "(nat \<Rightarrow> http_result) \<Rightarrow> int \<Rightarrow> (py_error + json) list" where
  "jwks_fanout net concurrency = gather_return_exceptions (jwks_tasks net concurrency)"

definition has_keys :: "py_error + json \<Rightarrow> bool" where
  \<comment> \<open>\<open>isinstance(r, dict) and 'keys' in r\<close>\<close>
  "has_keys r = (case r of Inr (JDict kvs) \<Rightarrow> ''keys'' \<in> fst ` set kvs | _ \<Rightarrow> False)"

definition print_sample_jwk :: "(py_error + json) list \<Rightarrow> py_error + unit" where
  "print_sample_jwk results =
     (case results of
        Inr (JDict sample_jwk) # _ \<Rightarrow>
          if sample_jwk = [] then Inr ()
          else (case map_of sample_jwk ''keys'' of
                  None \<Rightarrow> Inr ()
                | Some ks \<Rightarrow>
                    if \<not> truthy ks then Inr ()
                    else py_bind (py_first ks) (\<lambda>key. py_bind (py_keys key) (\<lambda>_. Inr ())))
      | _ \<Rightarrow> Inr ())"

definition test_jwks_endpoint_load ::
  "(nat \<Rightarrow> http_result) \<Rightarrow> real \<Rightarrow> int \<Rightarrow> TestResult list \<Rightarrow> py_error + TestResult list" where
  "test_jwks_endpoint_load net dur concurrency self_results =
     (let results = jwks_fanout net concurrency;
          successes = int (length (filter has_keys results))
      in if dur = 0 then Inl ZeroDivisionError
         else
           (let result = \<lparr>name = ''JWKS Load Test'',
                          success = (successes = concurrency),
                          duration = dur,
                          details = str_int successes @ ''/'' @ str_int concurrency
                            @ '' requests succeeded in '' @ fmt_f 2 dur @ ''s (''
                            @ fmt_f 1 (real_of_int concurrency / dur) @ '' req/s)'',
                          metrics = None\<rparr>
            in py_bind (print_sample_jwk results) (\<lambda>_. Inr (self_results @ [result]))))"

text \<open>
  Test 2. The request of \<open>register_user\<close> is built from the tenant, two fresh UUIDs and
  the built-in \<open>hash\<close> of the e-mail address under the secret of the process.
  \<^verbatim>\<open>
  async def register_user():
      user_data = {"tenant_id": TENANT_ID, "user_id": str(uuid.uuid4()),
                   "email": f"load-{uuid.uuid4()}@test.com", "password": "SecurePass123!@#"}
      try:
          async with session.post(f"{self.base_url}/api/auth/register", json=user_data,
              headers={"X-Forwarded-For": f"192.0.2.{hash(user_data['email']) % 255}"}
          ) as resp:
              return resp.status, await resp.json()
      except Exception as e:
          return 0, {"error": str(e)}
  \<close>
\<close>

record request =
  req_path :: string
  req_json :: "(string \<times> string) list"
  req_headers :: "(string \<times> string) list"

definition forwarded_for :: "int \<times> int \<Rightarrow> string \<Rightarrow> string" where
  "forwarded_for secret email = ''192.0.2.'' @ str_int (py_hash secret email mod 255)"

definition register_request ::
  "int \<times> int \<Rightarrow> string \<Rightarrow> string \<Rightarrow> string \<Rightarrow> request" where
  "register_request secret tenant_id user_uuid email_uuid =
     (let email = ''load-'' @ email_uuid @ ''@test.com'';
          user_data = [(''tenant_id'', tenant_id), (''user_id'', user_uuid),
                       (''email'', email), (''password'', ''SecurePass123!@#'')]
      in \<lparr>req_path = ''/api/auth/register'',
          req_json = user_data,
          req_headers = [(''X-Forwarded-For'', forwarded_for secret email)]\<rparr>)"

definition register_user :: "http_result \<Rightarrow> py_error + int \<times> json" where
  "register_user r =
     (case r of
        Inl e \<Rightarrow> Inr (0, JDict [(''error'', JStr (err_str e))])
      | Inr resp \<Rightarrow>
          (case resp_json resp of
             Inl e \<Rightarrow> Inr (0, JDict [(''error'', JStr (err_str e))])
           | Inr body \<Rightarrow> Inr (resp_status resp, body)))"

text \<open>
  \<^verbatim>\<open>
  metrics_before = await self.get_metrics(session)
  tasks = [register_user() for _ in range(beyond_limit)]
  results = await asyncio.gather(*tasks)
  duration = time.time() - start
  successes = sum(1 for status, _ in results if status == 200)
  hash_busy = sum(1 for status, body in results if status == 503 or 'hash_busy' in str(body))
  metrics_after = await self.get_metrics(session)
  result = TestResult(name="Hash Concurrency Limiting", success=hash_busy > 0,
      duration=duration,
      details=f"{successes} succeeded, {hash_busy} hit hash_busy in {duration:.2f}s")
  self.results.append(result)
  \<close>
\<close>

definition register_tasks :: "(nat \<Rightarrow> http_result) \<Rightarrow> int \<Rightarrow> (py_error + int \<times> json) list" where
  "register_tasks net beyond_limit = map (\<lambda>i. register_user (net i)) [0..<nat beyond_limit]"

definition register_fanout :: "(nat \<Rightarrow> http_result) \<Rightarrow> int \<Rightarrow> py_error + (int \<times> json) list" where
  "register_fanout net beyond_limit = gather (register_tasks net beyond_limit)"

definition is_hash_busy :: "int \<times> json \<Rightarrow> bool" where
  "is_hash_busy r = (fst r = 503 \<or> contains ''hash_busy'' (py_str (snd r)))"

definition test_hash_concurrency_limit ::
  "http_result \<Rightarrow> (nat \<Rightarrow> http_result) \<Rightarrow> real \<Rightarrow> http_result \<Rightarrow> int \<Rightarrow> TestResult list
     \<Rightarrow> py_error + TestResult list" where
  "test_hash_concurrency_limit before net dur after beyond_limit self_results =
     py_bind (get_metrics before) (\<lambda>metrics_before.
     py_bind (register_fanout net beyond_limit) (\<lambda>results.
       let successes = int (length (filter (\<lambda>r. fst r = 200) results));
           hash_busy = int (length (filter is_hash_busy results))
       in py_bind (get_metrics after) (\<lambda>metrics_after.
            Inr (self_results @
              [\<lparr>name = ''Hash Concurrency Limiting'',
                success = (0 < hash_busy),
                duration = dur,
                details = str_int successes @ '' succeeded, '' @ str_int hash_busy
                  @ '' hit hash_busy in '' @ fmt_f 2 dur @ ''s'',
                metrics = None\<rparr>]))))"

text \<open>
  Test 3.
  \<^verbatim>\<open>
  async with session.post(f"{self.base_url}/api/auth/register", json=reg_data) as resp:
      if resp.status != 200:
          print(f"  ... Registration failed: {await resp.text()}")
          return
  async with session.post(f"{self.base_url}/api/auth/login", json=login_data,
      headers={"X-Forwarded-For": "203.0.113.42", "User-Agent": "TestClient/1.0"}) as resp:
      login_result = await resp.json()
      refresh_token = login_result.get("refresh_token")
  if not refresh_token:
      print(f"  ... No refresh token received")
      return
  async with session.post(f"{self.base_url}/api/auth/refresh", json=refresh_data,
      headers={"X-Forwarded-For": "203.0.113.42"}) as resp:
      first_refresh = resp.status
  start = time.time()
  async with session.post(f"{self.base_url}/api/auth/refresh", json=refresh_data,
      headers={"X-Forwarded-For": "198.51.100.99", "User-Agent": "EvilClient/0.1"}) as resp:
      replay_status = resp.status
      replay_body = await resp.text()
  duration = time.time() - start
  with open('/tmp/auth-rs-v1_4.log', 'r') as f:
      logs = f.read()
      has_replay_log = 'refresh_replay_detected' in logs
      has_client_ip = '198.51.100.99' in logs or 'client_ip' in logs
      has_user_agent = 'EvilClient' in logs or 'user_agent' in logs
  result = TestResult(name="Replay Detection with Client IP",
      success=replay_status == 401 and has_replay_log and has_client_ip,
      duration=duration,
      details=f"Replay {'blocked' if replay_status == 401 else 'NOT blocked'}, IP logged: {has_client_ip}, UA logged: {has_user_agent}")
  self.results.append(result)
  \<close>
  The log file is an input: its text, or the exception of \<open>open\<close> or \<open>read\<close>.
\<close>

definition test_replay_detection_with_ip ::
  "http_result \<Rightarrow> http_result \<Rightarrow> http_result \<Rightarrow> http_result \<Rightarrow> real \<Rightarrow> py_error + string
     \<Rightarrow> TestResult list \<Rightarrow> py_error + TestResult list" where
  "test_replay_detection_with_ip reg login refresh1 refresh2 dur log_file self_results =
     py_bind (await_response reg) (\<lambda>reg_resp.
       if resp_status reg_resp \<noteq> 200
       then py_bind (await_text reg_resp) (\<lambda>_. Inr self_results)
       else
         py_bind (await_response login) (\<lambda>login_resp.
         py_bind (await_json login_resp) (\<lambda>login_result.
         py_bind (py_get login_result ''refresh_token'') (\<lambda>refresh_token.
           if \<not> truthy refresh_token then Inr self_results
           else
             py_bind (await_response refresh1) (\<lambda>resp1.
             py_bind (await_response refresh2) (\<lambda>resp2.
             py_bind (await_text resp2) (\<lambda>replay_body.
             py_bind log_file (\<lambda>logs.
               let first_refresh = resp_status resp1;
                   replay_status = resp_status resp2;
                   has_replay_log = contains ''refresh_replay_detected'' logs;
                   has_client_ip = (contains ''198.51.100.99'' logs \<or> contains ''client_ip'' logs);
                   has_user_agent = (contains ''EvilClient'' logs \<or> contains ''user_agent'' logs)
               in Inr (self_results @
                    [\<lparr>name = ''Replay Detection with Client IP'',
                      success = (replay_status = 401 \<and> has_replay_log \<and> has_client_ip),
                      duration = dur,
                      details = ''Replay ''
                        @ (if replay_status = 401 then ''blocked'' else ''NOT blocked'')
                        @ '', IP logged: '' @ str_bool has_client_ip
                        @ '', UA logged: '' @ str_bool has_user_agent,
                      metrics = None\<rparr>])))))))))"

text \<open>
  Test 4.
  \<^verbatim>\<open>
  async with session.post(f"{self.base_url}/api/auth/register", json=reg_data) as resp:
      if resp.status != 200:
          print(f"  ... Registration failed")
          return
  statuses = []
  for i in range(10):
      async with session.post(f"{self.base_url}/api/auth/login", json=login_data) as resp:
          statuses.append(resp.status)
          await asyncio.sleep(0.1)
  duration = time.time() - start
  successes = sum(1 for s in statuses if s == 200)
  rate_limited = sum(1 for s in statuses if s == 429)
  result = TestResult(name="Rate Limiting", success=rate_limited > 0, duration=duration,
      details=f"{successes} succeeded, {rate_limited} rate-limited (expected after 5th request)")
  self.results.append(result)
  \<close>
\<close>

fun login_statuses :: "http_result list \<Rightarrow> int list \<Rightarrow> py_error + int list" where
  "login_statuses [] statuses = Inr statuses"
| "login_statuses (r # rs) statuses =
     py_bind (await_response r) (\<lambda>resp. login_statuses rs (statuses @ [resp_status resp]))"

definition test_rate_limiting ::
  "http_result \<Rightarrow> (nat \<Rightarrow> http_result) \<Rightarrow> real \<Rightarrow> TestResult list \<Rightarrow> py_error + TestResult list"
  where
  "test_rate_limiting reg logins dur self_results =
     py_bind (await_response reg) (\<lambda>reg_resp.
       if resp_status reg_resp \<noteq> 200 then Inr self_results
       else
         py_bind (login_statuses (map logins [0..<10]) []) (\<lambda>statuses.
           let successes = int (length (filter (\<lambda>s. s = 200) statuses));
               rate_limited = int (length (filter (\<lambda>s. s = 429) statuses))
           in Inr (self_results @
                [\<lparr>name = ''Rate Limiting'',
                  success = (0 < rate_limited),
                  duration = dur,
                  details = str_int successes @ '' succeeded, '' @ str_int rate_limited
                    @ '' rate-limited (expected after 5th request)'',
                  metrics = None\<rparr>])))"

text \<open>
  Test 5.
  \<^verbatim>\<open>
  metrics = await self.get_metrics(session)
  required_metrics = ['auth_register_total', 'auth_login_total', 'auth_refresh_total',
                      'auth_http_request_duration_seconds']
  found_metrics = {}
  for metric in required_metrics:
      if metric in metrics:
          found_metrics[metric] = metrics[metric]
  result = TestResult(name="Metrics Validation", success=len(found_metrics) >= 3, duration=0,
      details=f"{len(found_metrics)}/{len(required_metrics)} required metrics found",
      metrics=found_metrics)
  self.results.append(result)
  \<close>
\<close>

definition required_metrics :: "string list" where
  "required_metrics = [''auth_register_total'', ''auth_login_total'', ''auth_refresh_total'',
                       ''auth_http_request_duration_seconds'']"

definition validate_metrics :: "http_result \<Rightarrow> TestResult list \<Rightarrow> py_error + TestResult list" where
  "validate_metrics r self_results =
     py_bind (get_metrics r) (\<lambda>ms.
       let found_metrics =
             List.map_filter (\<lambda>metric. map_option (Pair metric) (map_of ms metric))
               required_metrics
       in Inr (self_results @
            [\<lparr>name = ''Metrics Validation'',
              success = (3 \<le> length found_metrics),
              duration = 0,
              details = str_int (int (length found_metrics)) @ ''/''
                @ str_int (int (length required_metrics)) @ '' required metrics found'',
              metrics = Some found_metrics\<rparr>]))"

section \<open>pressure-test.py: the run and the exit status\<close>

text \<open>
  \<^verbatim>\<open>
  async def run_all_tests(self):
      async with aiohttp.ClientSession() as session:
          await self.test_jwks_endpoint_load(session, concurrency=100)
          await self.test_hash_concurrency_limit(session, beyond_limit=60)
          await self.test_replay_detection_with_ip(session)
          await self.test_rate_limiting(session)
          await self.validate_metrics(session)
      total_tests = len(self.results)
      passed = sum(1 for r in self.results if r.success)
      ...
      print(f"Overall: {passed}/{total_tests} tests passed ({passed/total_tests*100:.0f}%)")
      return passed == total_tests

  async def main():
      tester = LoadTester(BASE_URL)
      success = await tester.run_all_tests()
      sys.exit(0 if success else 1)
  \<close>
  \<open>world\<close> holds what one run meets: the outcome of each request, the measured times and
  the log file. An exception that leaves \<open>main\<close> ends the process with status 1.
\<close>

record world =
  jwks_net :: "nat \<Rightarrow> http_result"
  jwks_time :: real
  hash_metrics_before :: http_result
  hash_net :: "nat \<Rightarrow> http_result"
  hash_time :: real
  hash_metrics_after :: http_result
  replay_register :: http_result
  replay_login :: http_result
  replay_refresh1 :: http_result
  replay_refresh2 :: http_result
  replay_time :: real
  replay_log :: "py_error + string"
  rate_register :: http_result
  rate_logins :: "nat \<Rightarrow> http_result"
  rate_time :: real
  final_metrics :: http_result

definition run_scenarios :: "world \<Rightarrow> py_error + TestResult list" where
  "run_scenarios w =
     py_bind (test_jwks_endpoint_load (jwks_net w) (jwks_time w) 100 []) (\<lambda>r1.
     py_bind (test_hash_concurrency_limit (hash_metrics_before w) (hash_net w) (hash_time w)
             (hash_metrics_after w) 60 r1) (\<lambda>r2.
     py_bind (test_replay_detection_with_ip (replay_register w) (replay_login w)
             (replay_refresh1 w) (replay_refresh2 w) (replay_time w) (replay_log w) r2) (\<lambda>r3.
     py_bind (test_rate_limiting (rate_register w) (rate_logins w) (rate_time w) r3) (\<lambda>r4.
     validate_metrics (final_metrics w) r4))))"

definition summary :: "TestResult list \<Rightarrow> py_error + bool" where
  "summary self_results =
     (let total_tests = int (length self_results);
          passed = int (length (filter success self_results))
      in if total_tests = 0 then Inl ZeroDivisionError else Inr (passed = total_tests))"

definition run_all_tests :: "world \<Rightarrow> py_error + bool" where
  "run_all_tests w = py_bind (run_scenarios w) summary"

definition main :: "world \<Rightarrow> int" where
  "main w = (case run_all_tests w of Inl e \<Rightarrow> 1 | Inr ok \<Rightarrow> if ok then 0 else 1)"

section \<open>platform/identity-auth/test-hash-concurrency-extreme.py\<close>

text \<open>
  \<^verbatim>\<open>
  CONCURRENCY = 200

  async def register_user(session, sem):
      async with sem:
          user_data = {... "email": f"extreme-{uuid.uuid4()}@test.com", ...}
          try:
              async with session.post(f"{BASE_URL}/api/auth/register", json=user_data,
                  headers={"X-Forwarded-For": f"192.0.2.{hash(user_data['email']) % 255}"},
                  timeout=aiohttp.ClientTimeout(total=30)) as resp:
                  status = resp.status
                  body = await resp.json()
                  return status, body
          except asyncio.TimeoutError:
              return 0, {"error": "timeout"}
          except Exception as e:
              return 0, {"error": str(e)}

  sem = asyncio.Semaphore(CONCURRENCY)
  tasks = [register_user(session, sem) for _ in range(CONCURRENCY)]
  results = await asyncio.gather(*tasks)
  \<close>
  The semaphore orders the requests in time and has no part in their results.
\<close>

definition CONCURRENCY :: int where
  "CONCURRENCY = 200"

definition extreme_request ::
  "int \<times> int \<Rightarrow> string \<Rightarrow> string \<Rightarrow> string \<Rightarrow> request" where
  "extreme_request secret tenant_id user_uuid email_uuid =
     (let email = ''extreme-'' @ email_uuid @ ''@test.com'';
          user_data = [(''tenant_id'', tenant_id), (''user_id'', user_uuid),
                       (''email'', email), (''password'', ''SecurePass123!@#'')]
      in \<lparr>req_path = ''/api/auth/register'',
          req_json = user_data,
          req_headers = [(''X-Forwarded-For'', forwarded_for secret email)]\<rparr>)"

definition extreme_register_user :: "http_result \<Rightarrow> py_error + int \<times> json" where
  "extreme_register_user r =
     (let on_error = (\<lambda>e. case e of
                             Timeout m \<Rightarrow> Inr (0, JDict [(''error'', JStr ''timeout'')])
                           | Failure m \<Rightarrow> Inr (0, JDict [(''error'', JStr m)]))
      in case r of
           Inl e \<Rightarrow> on_error e
         | Inr resp \<Rightarrow>
             (case resp_json resp of
                Inl e \<Rightarrow> on_error e
              | Inr body \<Rightarrow> Inr (resp_status resp, body)))"

definition extreme_tasks :: "(nat \<Rightarrow> http_result) \<Rightarrow> (py_error + int \<times> json) list" where
  "extreme_tasks net = map (\<lambda>i. extreme_register_user (net i)) [0..<nat CONCURRENCY]"

definition extreme_fanout :: "(nat \<Rightarrow> http_result) \<Rightarrow> py_error + (int \<times> json) list" where
  "extreme_fanout net = gather (extreme_tasks net)"

section \<open>scripts/test/load-login.py: percentiles\<close>

text \<open>
  \<^verbatim>\<open>
  def pct(lst,p):
      lst=sorted(lst)
      k=int(round((p/100.0)*(len(lst)-1)))
      return lst[k]
  \<close>
  The samples are floats (\<open>pyfloat\<close>); \<open>p\<close> is the value of an \<open>int\<close> or of a finite float.

  The index is computed in doubles. \<open>nearest_double\<close> rounds a real to the nearest double,
  a tie going to the even significand: the unit in the last place of \<open>x\<close> is
  \<open>2 ^ (e - 52)\<close>, where \<open>e\<close> is the exponent of \<open>x\<close>, not below \<open>-1022\<close>. A value that
  rounds beyond the largest double overflows: the conversion of an \<open>int\<close> raises
  \<open>OverflowError\<close>, a product becomes infinite and \<open>round\<close> raises \<open>OverflowError\<close> on it.
\<close>

function log2_floor :: "real \<Rightarrow> int" where
  "log2_floor x =
     (if x \<le> 0 then 0
      else if 2 \<le> x then log2_floor (x / 2) + 1
      else if x < 1 then log2_floor (x * 2) - 1
      else 0)"
  by pat_completeness auto
termination
proof (relation "measure (\<lambda>x. if 1 \<le> x then nat \<lfloor>x\<rfloor> else nat \<lceil>1 / x\<rceil>)")
  show "wf (measure (\<lambda>x::real. if 1 \<le> x then nat \<lfloor>x\<rfloor> else nat \<lceil>1 / x\<rceil>))" by simp
next
  fix x :: real
  assume "\<not> x \<le> 0" "2 \<le> x"
  then have "\<lfloor>x / 2\<rfloor> < \<lfloor>x\<rfloor>" by linarith
  moreover have "0 < \<lfloor>x\<rfloor>" using \<open>2 \<le> x\<close> by linarith
  ultimately show "(x / 2, x) \<in> measure (\<lambda>x. if 1 \<le> x then nat \<lfloor>x\<rfloor> else nat \<lceil>1 / x\<rceil>)"
    using \<open>2 \<le> x\<close> by simp
next
  fix x :: real
  assume a: "\<not> x \<le> 0" "\<not> 2 \<le> x" "x < 1"
  then have x: "0 < x" by simp
  have inv: "1 < 1 / x" using a x by simp
  show "(x * 2, x) \<in> measure (\<lambda>x. if 1 \<le> x then nat \<lfloor>x\<rfloor> else nat \<lceil>1 / x\<rceil>)"
  proof (cases "1 \<le> x * 2")
    case True
    have "\<lfloor>x * 2\<rfloor> = 1" using True a by linarith
    moreover have "2 \<le> \<lceil>1 / x\<rceil>" using inv by linarith
    ultimately show ?thesis using True a by simp
  next
    case False
    then have "2 < 1 / x" using x by (simp add: field_simps)
    have "1 / (x * 2) = (1 / x) / 2" by simp
    then have "\<lceil>1 / (x * 2)\<rceil> < \<lceil>1 / x\<rceil>" using \<open>2 < 1 / x\<close> by linarith
    moreover have "0 < \<lceil>1 / x\<rceil>" using inv by linarith
    ultimately show ?thesis using False a by simp
  qed
qed

declare log2_floor.simps [simp del]

definition ulp_exp :: "real \<Rightarrow> int" where
  "ulp_exp x = max (log2_floor \<bar>x\<bar>) (- 1022) - 52"

definition nearest_double :: "real \<Rightarrow> real" where
  "nearest_double x = of_int (py_round (x / 2 powi ulp_exp x)) * 2 powi ulp_exp x"

















section \<open>Example runs\<close>

text \<open>
  Concrete inputs for the theorems below: a response with a given status, text and
  parsed body, and a run in which every scenario meets what it hopes for.
\<close>

definition response_of :: "int \<Rightarrow> string \<Rightarrow> json \<Rightarrow> http_result" where
  "response_of st txt body = Inr \<lparr>resp_status = st, resp_text = Inr txt, resp_json = Inr body\<rparr>"

definition empty_keys :: http_result where
  "empty_keys =
     response_of 200 (''{'' @ [CHR 0x22] @ ''keys'' @ [CHR 0x22] @ '': []}'')
       (JDict [(''keys'', JList [])])"

definition one_key :: http_result where
  "one_key =
     response_of 200
       (''{'' @ [CHR 0x22] @ ''keys'' @ [CHR 0x22] @ '': [{'' @ [CHR 0x22] @ ''kid'' @ [CHR 0x22]
        @ '': '' @ [CHR 0x22] @ ''abc'' @ [CHR 0x22] @ ''}]}'')
       (JDict [(''keys'', JList [JDict [(''kid'', JStr ''abc'')]])])"

definition exposition :: string where
  "exposition =
     ''# HELP auth_login_total logins'' @ [CHR 0x0A]
     @ ''auth_login_total 42'' @ [CHR 0x0A]
     @ ''auth_register_total 61'' @ [CHR 0x0A]
     @ ''auth_refresh_total{result=ok} 1'' @ [CHR 0x0A]
     @ ''auth_refresh_total{result=replay} 1'' @ [CHR 0x0A]"

definition passing_world :: world where
  "passing_world =
     \<lparr>jwks_net = (\<lambda>i. one_key),
      jwks_time = 1 / 2,
      hash_metrics_before = response_of 200 exposition JNone,
      hash_net = (\<lambda>i. if i < 50 then response_of 200 ''{}'' (JDict [])
                       else response_of 503 ''{}'' (JDict [(''error'', JStr ''hash_busy'')])),
      hash_time = 3,
      hash_metrics_after = response_of 200 exposition JNone,
      replay_register = response_of 200 ''{}'' (JDict []),
      replay_login = response_of 200 ''{}'' (JDict [(''refresh_token'', JStr ''r1'')]),
      replay_refresh1 = response_of 200 ''{}'' (JDict []),
      replay_refresh2 = response_of 401 ''replayed'' (JStr ''replayed''),
      replay_time = 1 / 10,
      replay_log = Inr ''WARN refresh_replay_detected client_ip=198.51.100.99 user_agent=EvilClient/0.1'',
      rate_register = response_of 200 ''{}'' (JDict []),
      rate_logins = (\<lambda>i. if i < 5 then response_of 200 ''{}'' (JDict [])
                          else response_of 429 ''{}'' (JDict [])),
      rate_time = 1,
      final_metrics = response_of 200 exposition JNone\<rparr>"


section \<open>Percentiles\<close>


lemma py_round_of_int: "py_round (of_int n) = n"
  by (simp add: py_round_def Let_def)

lemma two_powi_Suc: "(2::real) powi (k + 1) = 2 powi k * 2"
  by (simp add: power_int_add)

lemma two_powi_pred: "(2::real) powi (k - 1) = 2 powi k / 2"
  by (simp add: power_int_diff)

lemma log2_floor_bounds:
  "0 < x \<Longrightarrow> 2 powi log2_floor x \<le> x \<and> x < 2 powi (log2_floor x + 1)"
proof (induction x rule: log2_floor.induct)
  case (1 x)
  show ?case
  proof (cases "2 \<le> x")
    case True
    define k where "k = log2_floor (x / 2)"
    have e: "log2_floor x = k + 1"
      using True unfolding k_def by (subst log2_floor.simps) simp
    have "0 < x / 2" using True by simp
    with "1.IH"(1) True "1.prems"
    have ih: "2 powi k \<le> x / 2" "x / 2 < 2 powi (k + 1)"
      unfolding k_def by auto
    have "2 powi k * 2 \<le> x" using ih(1) by simp
    then have lo: "2 powi (k + 1) \<le> x" by (simp only: two_powi_Suc)
    have "x < 2 powi (k + 1) * 2" using ih(2) by simp
    then have hi: "x < 2 powi (k + 1 + 1)" by (simp only: two_powi_Suc [of "k + 1"])
    show ?thesis using lo hi by (simp only: e)
  next
    case False
    show ?thesis
    proof (cases "x < 1")
      case True
      define k where "k = log2_floor (x * 2)"
      have e: "log2_floor x = k - 1"
        using False True "1.prems" unfolding k_def by (subst log2_floor.simps) simp
      have "0 < x * 2" using "1.prems" by simp
      with "1.IH"(2) True False "1.prems"
      have ih: "2 powi k \<le> x * 2" "x * 2 < 2 powi (k + 1)"
        unfolding k_def by auto
      have "2 powi k / 2 \<le> x" using ih(1) by simp
      then have lo: "2 powi (k - 1) \<le> x" by (simp only: two_powi_pred)
      have "x * 2 < 2 powi k * 2" using ih(2) by (simp only: two_powi_Suc)
      then have hi: "x < 2 powi (k - 1 + 1)" by simp
      have "k - 1 + 1 = k" by simp
      show ?thesis using lo hi by (simp only: e)
    next
      case ge1: False
      then have e: "log2_floor x = 0"
        using False "1.prems" by (subst log2_floor.simps) simp
      show ?thesis using ge1 False by (simp add: e)
    qed
  qed
qed

lemma log2_floor_le:
  assumes "0 < x" "x \<le> 2 ^ n"
  shows "log2_floor x \<le> int n"
proof -
  have "(2::real) powi log2_floor x \<le> 2 powi int n"
    using log2_floor_bounds [OF assms(1)] assms(2) by simp
  then show ?thesis by (rule power_int_le_imp_le_exp [rotated]) simp_all
qed

lemma real_le_2_53:
  assumes "y \<le> real_of_int M" "M \<le> 2 ^ 53"
  shows "y \<le> 2 ^ 53"
proof -
  have "real_of_int M \<le> real_of_int (2 ^ 53)" using assms(2) by (simp only: of_int_le_iff)
  also have "real_of_int (2 ^ 53) = 2 ^ 53" by simp
  finally show ?thesis using assms(1) by linarith
qed

lemma ulp_exp_zero: "ulp_exp 0 = - 52"
  by (simp add: ulp_exp_def log2_floor.simps)

lemma two_powi_neg: "(2::real) powi (- int k) = 1 / 2 ^ k"
  by (simp add: power_int_minus_divide)

lemma double_grid:
  assumes "0 \<le> y" "y \<le> of_int M" "M \<le> 2 ^ 53"
  shows "\<exists>N. real_of_int M = of_int N * 2 powi ulp_exp y"
proof (cases "y = 0")
  case True
  have "real_of_int (M * 2 ^ 52) * 2 powi (- int 52) = real_of_int M"
    by (simp only: two_powi_neg) simp
  then have "real_of_int M = of_int (M * 2 ^ 52) * 2 powi ulp_exp y"
    using True ulp_exp_zero by simp
  then show ?thesis by blast
next
  case False
  then have y: "0 < y" using assms(1) by simp
  define e where "e = log2_floor y"
  have "y \<le> 2 ^ 53" using assms(2,3) by (rule real_le_2_53)
  then have e53: "e \<le> 53" using log2_floor_le [OF y, of 53] by (simp add: e_def)
  have "\<bar>y\<bar> = y" using y by simp
  then have u: "ulp_exp y = max e (- 1022) - 52" by (simp only: ulp_exp_def e_def)
  show ?thesis
  proof (cases "ulp_exp y \<le> 0")
    case True
    define k where "k = nat (- ulp_exp y)"
    have uk: "ulp_exp y = - int k" using True by (simp add: k_def)
    have "real_of_int (M * 2 ^ k) * 2 powi (- int k) = real_of_int M"
      by (simp only: two_powi_neg) simp
    then have "real_of_int M = of_int (M * 2 ^ k) * 2 powi ulp_exp y"
      by (simp only: uk)
    then show ?thesis by blast
  next
    case False
    then have e: "e = 53" and u1: "ulp_exp y = 1" using e53 u by auto
    have "2 powi e \<le> y" using log2_floor_bounds [OF y] by (simp add: e_def)
    then have "(2::real) ^ 53 \<le> y" by (simp add: e)
    then have "real_of_int (2 ^ 53) \<le> real_of_int M" using assms(2) by simp
    then have "2 ^ 53 \<le> M" by (simp only: of_int_le_iff)
    then have M: "M = 2 ^ 53" using assms(3) by simp
    have "real_of_int M = of_int (2 ^ 52) * 2 powi 1" by (simp add: M)
    then have "real_of_int M = of_int (2 ^ 52) * 2 powi ulp_exp y" by (simp only: u1)
    then show ?thesis by blast
  qed
qed

lemma two_powi_pos: "(0::real) < 2 powi k"
  by (rule zero_less_power_int) simp


lemma nearest_double_int:
  assumes "0 \<le> M" "M \<le> 2 ^ 53"
  shows "nearest_double (of_int M) = of_int M"
proof -
  have "(0::real) \<le> of_int M" using assms(1) by simp
  then obtain N where N: "real_of_int M = of_int N * 2 powi ulp_exp (of_int M)"
    using double_grid [of "of_int M" M] assms(2) by auto
  define s where "s = (2::real) powi ulp_exp (of_int M)"
  have pos: "0 < s" unfolding s_def by (rule two_powi_pos)
  have Ns: "real_of_int M = of_int N * s" using N by (simp only: s_def)
  have q: "real_of_int M / s = of_int N"
    using pos by (simp add: Ns)
  have "nearest_double (of_int M) = of_int (py_round (real_of_int M / s)) * s"
    by (simp only: nearest_double_def s_def)
  also have "\<dots> = of_int N * s"
    by (simp only: q py_round_of_int)
  also have "\<dots> = of_int M" by (simp only: Ns)
  finally show ?thesis .
qed














lemma nearest_double_0: "nearest_double 0 = 0"
  using nearest_double_int [of 0] by simp











section \<open>The metrics parser\<close>

lemma startswith_iff: "startswith p s \<longleftrightarrow> (\<exists>r. s = p @ r)"
  unfolding startswith_def
  by (metis append_eq_conv_conj append_take_drop_id)

lemma hd_split_on: "hd (split_on c s) = takeWhile (\<lambda>x. x \<noteq> c) s"
  by (induction s) (auto simp: Let_def)

lemma startswith_takeWhile:
  assumes "startswith p s" "\<forall>x \<in> set p. Q x"
  shows "startswith p (takeWhile Q s)"
proof -
  obtain r where "s = p @ r" using assms(1) by (auto simp: startswith_iff)
  then have "takeWhile Q s = p @ takeWhile Q r" using assms(2) by (simp add: takeWhile_append2)
  then show ?thesis by (auto simp: startswith_iff)
qed

lemma auth_no_space: "\<forall>x \<in> set ''auth_''. \<not> is_space x"
  by (simp add: is_space_def)

lemma auth_no_brace: "\<forall>x \<in> set ''auth_''. x \<noteq> CHR ''{''"
  by simp

lemma first_token:
  assumes "startswith ''auth_'' line"
  shows "py_split line \<noteq> [] \<and> py_split line ! 0 = takeWhile (\<lambda>x. \<not> is_space x) line"
proof -
  obtain rest where l: "line = CHR ''a'' # rest"
    using assms by (auto simp: startswith_iff)
  have "\<not> is_space (CHR ''a'')" by (simp add: is_space_def)
  then have d: "dropWhile is_space line = CHR ''a'' # rest" using l by simp
  have "py_split line = takeWhile (\<lambda>x. \<not> is_space x) (CHR ''a'' # rest)
          # py_split (dropWhile (\<lambda>x. \<not> is_space x) (CHR ''a'' # rest))"
    by (subst py_split.simps) (simp only: d list.case)
  then show ?thesis by (simp only: l [symmetric]) simp
qed

lemma auth_name_labelled:
  "startswith ''auth_'' line \<Longrightarrow> startswith ''auth_'' (hd (split_on (CHR ''{'') line))"
  using startswith_takeWhile [OF _ auth_no_brace, of line] by (simp only: hd_split_on)

lemma auth_name_simple:
  "startswith ''auth_'' line \<Longrightarrow> startswith ''auth_'' (py_split line ! 0)"
  using first_token [of line] startswith_takeWhile [OF _ auth_no_space, of line] by simp

lemma keys_update: "fst ` set (AList.update k v m) = insert k (fst ` set m)"
  by (simp add: dom_update)

lemma parse_line_keys:
  assumes "parse_line line m = Inr m'" "k \<in> fst ` set m'"
  shows "k \<in> fst ` set m
       \<or> (startswith ''auth_'' line
          \<and> (k = hd (split_on (CHR ''{'') line) \<or> k = py_split line ! 0))"
proof (cases "startswith ''auth_'' line")
  case False
  then show ?thesis using assms by (simp add: parse_line_def)
next
  case auth: True
  show ?thesis
  proof (cases "CHR ''{'' \<in> set line")
    case True
    define nm where "nm = hd (split_on (CHR ''{'') line)"
    define m0 where "m0 = (if nm \<notin> fst ` set m then AList.update nm (Samples []) m else m)"
    have k0: "fst ` set m0 \<subseteq> insert nm (fst ` set m)"
      by (auto simp: m0_def keys_update)
    from assms(1) auth True obtain vs v where "m' = AList.update nm (Samples (vs @ [v])) m0"
      unfolding parse_line_def Let_def nm_def [symmetric] m0_def [symmetric]
      by (auto split: sum.splits option.splits metric.splits)
    then have "fst ` set m' \<subseteq> insert nm (fst ` set m)"
      using k0 by (auto simp: keys_update)
    then show ?thesis using assms(2) auth by (auto simp: nm_def)
  next
    case False
    have "m' = m \<or> (\<exists>v. m' = AList.update (py_split line ! 0) (Single v) m)"
      using assms(1) auth False unfolding parse_line_def Let_def
      by (auto split: if_splits option.splits)
    then have "fst ` set m' \<subseteq> insert (py_split line ! 0) (fst ` set m)"
      using keys_update [of "py_split line ! 0" _ m] by auto
    then show ?thesis using assms(2) auth by auto
  qed
qed

lemma parse_lines_keys:
  assumes "parse_lines ls m = Inr m'" "k \<in> fst ` set m'"
  shows "k \<in> fst ` set m
       \<or> (\<exists>line \<in> set ls. startswith ''auth_'' line
             \<and> (k = hd (split_on (CHR ''{'') line) \<or> k = py_split line ! 0))"
  using assms
proof (induction ls arbitrary: m)
  case Nil
  then show ?case by simp
next
  case (Cons l ls)
  then obtain m1 where m1: "parse_line l m = Inr m1" "parse_lines ls m1 = Inr m'"
    by (auto split: sum.splits)
  from Cons.IH [OF m1(2) Cons.prems(2)] parse_line_keys [OF m1(1)]
  show ?case by auto
qed

text \<open>
  C10. The parser records only names that start with \<open>auth_\<close>: every key of the returned
  snapshot starts with \<open>auth_\<close> and is the name of a line of the input that starts with
  \<open>auth_\<close> (the text before its first brace, or its first token), so a name that does not
  start with \<open>auth_\<close> is absent from the snapshot.
\<close>

theorem get_metrics_only_auth:
  assumes "parse_metrics text = Inr m"
  shows "(\<forall>k \<in> fst ` set m.
            startswith ''auth_'' k
          \<and> (\<exists>line \<in> set (split_on (CHR 0x0A) text). startswith ''auth_'' line
                \<and> (k = hd (split_on (CHR ''{'') line) \<or> k = py_split line ! 0)))
       \<and> (\<forall>nm. \<not> startswith ''auth_'' nm \<longrightarrow> map_of m nm = None)"
proof -
  have keys: "\<exists>line \<in> set (split_on (CHR 0x0A) text). startswith ''auth_'' line
                \<and> (k = hd (split_on (CHR ''{'') line) \<or> k = py_split line ! 0)"
    if "k \<in> fst ` set m" for k
    using parse_lines_keys [OF assms [unfolded parse_metrics_def] that] by simp
  have pre: "startswith ''auth_'' k" if "k \<in> fst ` set m" for k
    using keys [OF that] auth_name_labelled auth_name_simple by auto
  have "map_of m nm = None" if "\<not> startswith ''auth_'' nm" for nm
    using that pre [of nm] by (auto simp: map_of_eq_None_iff)
  then show ?thesis using keys pre by blast
qed

lemmas float_eval = py_float_def float_strip_def is_float_space_def is_digit_def digit_of_def take_sign_def py_lower_def parse_mantissa_def parse_exponent_def digits_value_def Let_def
lemmas line_eval = parse_metrics_def parse_line_def startswith_def py_split.simps is_space_def py_index_def

lemma metrics_example:
  "parse_metrics (''node_up 1'' @ [CHR 0x0A] @ ''auth_login_total 42'')
     = Inr [(''auth_login_total'', Single (Finite 42))]"
  by (simp add: line_eval float_eval)

theorem get_metrics_only_auth_witness:
  "parse_metrics (''node_up 1'' @ [CHR 0x0A] @ ''auth_login_total 42'')
     = Inr [(''auth_login_total'', Single (Finite 42))]
   \<and> map_of [(''auth_login_total'', Single (Finite 42))] ''node_up'' = None
   \<and> startswith ''auth_'' ''auth_login_total''"
  using get_metrics_only_auth [OF metrics_example] metrics_example
  by (simp add: startswith_def py_split.simps is_space_def)

lemma py_index_last: "xs \<noteq> [] \<Longrightarrow> py_index xs (- 1) = Inr (last xs)"
  by (cases xs rule: rev_cases) (auto simp: py_index_def nth_append)

text \<open>
  C4, as stated, fails: a line that starts with \<open>auth_\<close> and carries a value that
  \<open>float\<close> rejects makes the parser raise \<open>ValueError\<close>, with or without a brace.
\<close>

theorem get_metrics_raises_counterexample:
  "parse_metrics ''auth_login_total abc'' = Inl ValueError
   \<and> parse_metrics ''auth_login_total{code=200} abc'' = Inl ValueError"
  by (simp add: line_eval float_eval)

text \<open>
  C4, amended. The parser skips every line that does not start with \<open>auth_\<close> and every
  line without a brace that starts with \<open>auth_\<close> and has a token count other than two,
  and goes on with the remaining lines. A value that \<open>float\<close> rejects on a line that starts
  with \<open>auth_\<close> (the last token of a line with a brace, the second token of a two-token
  line) is not skipped: \<open>ValueError\<close> is raised and the parse stops. The line
  \<open>foo bar baz\<close> is skipped and \<open>auth_login_total 42\<close> yields the unlabeled value 42.0.
\<close>

theorem get_metrics_malformed_lines:
  "(\<not> startswith ''auth_'' l1 \<longrightarrow> parse_lines (l1 # rest) m = parse_lines rest m)
   \<and> (startswith ''auth_'' l2 \<and> CHR ''{'' \<notin> set l2 \<and> length (py_split l2) \<noteq> 2
        \<longrightarrow> parse_lines (l2 # rest) m = parse_lines rest m)
   \<and> (startswith ''auth_'' l3 \<and> CHR ''{'' \<notin> set l3 \<and> length (py_split l3) = 2
        \<and> py_float (py_split l3 ! 1) = None
        \<longrightarrow> parse_lines (l3 # rest) m = Inl ValueError)
   \<and> (startswith ''auth_'' l4 \<and> CHR ''{'' \<in> set l4 \<and> py_float (last (py_split l4)) = None
        \<longrightarrow> parse_lines (l4 # rest) m = Inl ValueError)
   \<and> parse_metrics ''foo bar baz'' = Inr []
   \<and> parse_metrics ''auth_login_total 42'' = Inr [(''auth_login_total'', Single (Finite 42))]"
proof -
  have a: "parse_lines (l1 # rest) m = parse_lines rest m" if "\<not> startswith ''auth_'' l1"
    using that by (simp add: parse_line_def)
  have h: "\<not> startswith ''#'' l" if "startswith ''auth_'' l" for l
    using that by (auto simp: startswith_iff)
  have b: "parse_lines (l2 # rest) m = parse_lines rest m"
    if "startswith ''auth_'' l2" "CHR ''{'' \<notin> set l2" "length (py_split l2) \<noteq> 2"
    using that h [of l2] by (simp add: parse_line_def)
  have c: "parse_lines (l3 # rest) m = Inl ValueError"
    if "startswith ''auth_'' l3" "CHR ''{'' \<notin> set l3" "length (py_split l3) = 2"
      "py_float (py_split l3 ! 1) = None"
    using that h [of l3] by (simp add: parse_line_def)
  have d: "parse_lines (l4 # rest) m = Inl ValueError"
    if "startswith ''auth_'' l4" "CHR ''{'' \<in> set l4" "py_float (last (py_split l4)) = None"
  proof -
    have "py_index (py_split l4) (- 1) = Inr (last (py_split l4))"
      using first_token [OF that(1)] by (intro py_index_last) simp
    then show ?thesis using that by (simp add: parse_line_def)
  qed
  have e: "parse_metrics ''foo bar baz'' = Inr []"
    by (simp add: line_eval)
  have f: "parse_metrics ''auth_login_total 42'' = Inr [(''auth_login_total'', Single (Finite 42))]"
    by (simp add: line_eval float_eval)
  show ?thesis using a b c d e f by blast
qed

theorem get_metrics_malformed_lines_witness:
  "parse_lines [''foo bar baz'', ''auth_login_total 42''] []
     = Inr [(''auth_login_total'', Single (Finite 42))]
   \<and> parse_lines [''auth_a 1 2'', ''auth_login_total 42''] []
     = Inr [(''auth_login_total'', Single (Finite 42))]
   \<and> parse_lines [''auth_a x'', ''auth_login_total 42''] [] = Inl ValueError
   \<and> parse_lines [''auth_a{} x'', ''auth_login_total 42''] [] = Inl ValueError"
  using get_metrics_malformed_lines [of "''foo bar baz''" "[''auth_login_total 42'']" "[]"
      "''auth_a 1 2''" "''auth_a x''" "''auth_a{} x''"]
  by (simp add: line_eval float_eval)

section \<open>The scenarios and the run\<close>

lemma py_bind_simps:
  "py_bind (Inl e) f = Inl e" "py_bind (Inr x) f = f x"
  by (simp_all add: py_bind_def)

lemma py_bind_Inr:
  "py_bind m f = Inr y \<longleftrightarrow> (\<exists>x. m = Inr x \<and> f x = Inr y)"
  by (cases m) (simp_all add: py_bind_def)

lemma gather_all_Inr:
  "gather (map (\<lambda>x. Inr (f x)) xs) = Inr (map f xs)"
  by (induction xs) simp_all

lemma register_user_returns:
  "register_user r = Inr (case r of
        Inl e \<Rightarrow> (0, JDict [(''error'', JStr (err_str e))])
      | Inr resp \<Rightarrow>
          (case resp_json resp of
             Inl e \<Rightarrow> (0, JDict [(''error'', JStr (err_str e))])
           | Inr body \<Rightarrow> (resp_status resp, body)))"
  by (simp add: register_user_def split: sum.splits)

lemma extreme_register_user_returns:
  "\<exists>y. extreme_register_user r = Inr y"
  by (simp add: extreme_register_user_def Let_def split: sum.splits http_error.splits)

lemma gather_total:
  assumes "\<forall>t \<in> set ts. \<exists>y. t = Inr y"
  shows "\<exists>rs. gather ts = Inr rs \<and> length rs = length ts"
  using assms
proof (induction ts)
  case Nil
  then show ?case by simp
next
  case (Cons t ts)
  then obtain y rs where "t = Inr y" "gather ts = Inr rs" "length rs = length ts"
    by auto
  then show ?case by simp
qed

lemma register_fanout_total:
  "\<exists>rs. register_fanout net n = Inr rs \<and> length rs = nat n"
proof -
  have "\<forall>t \<in> set (register_tasks net n). \<exists>y. t = Inr y"
    by (auto simp: register_tasks_def register_user_returns)
  from gather_total [OF this] show ?thesis
    by (simp add: register_fanout_def register_tasks_def)
qed

text \<open>
  C2. Each fan-out returns as many outcomes as it was given tasks: the JWKS fan-out,
  where an exception is the outcome of its task, and the two registration fan-outs,
  which always return because \<open>register_user\<close> turns every exception into an outcome.
\<close>

theorem fanout_lengths:
  "length (jwks_fanout net1 concurrency) = length (jwks_tasks net1 concurrency)
   \<and> length (jwks_tasks net1 concurrency) = nat concurrency
   \<and> (\<exists>results. register_fanout net2 beyond_limit = Inr results
          \<and> length results = length (register_tasks net2 beyond_limit))
   \<and> length (register_tasks net2 beyond_limit) = nat beyond_limit
   \<and> (\<exists>results. extreme_fanout net3 = Inr results
          \<and> length results = length (extreme_tasks net3))
   \<and> length (extreme_tasks net3) = 200"
proof -
  have a: "length (jwks_fanout net1 concurrency) = length (jwks_tasks net1 concurrency)"
    by (simp add: jwks_fanout_def gather_return_exceptions_def)
  have b: "length (jwks_tasks net1 concurrency) = nat concurrency"
    by (simp add: jwks_tasks_def)
  have c: "\<exists>results. register_fanout net2 beyond_limit = Inr results
          \<and> length results = length (register_tasks net2 beyond_limit)"
    using register_fanout_total [of net2 beyond_limit] by (simp add: register_tasks_def)
  have d: "length (register_tasks net2 beyond_limit) = nat beyond_limit"
    by (simp add: register_tasks_def)
  have "\<forall>t \<in> set (extreme_tasks net3). \<exists>y. t = Inr y"
    using extreme_register_user_returns by (auto simp: extreme_tasks_def)
  from gather_total [OF this]
  have e: "\<exists>results. extreme_fanout net3 = Inr results
          \<and> length results = length (extreme_tasks net3)"
    by (simp add: extreme_fanout_def)
  have f: "length (extreme_tasks net3) = 200"
    by (simp add: extreme_tasks_def CONCURRENCY_def)
  show ?thesis using a b c d e f by blast
qed

lemma length_filter_eq_iff:
  "length (filter P xs) = length xs \<longleftrightarrow> (\<forall>x \<in> set xs. P x)"
proof (induction xs)
  case Nil
  then show ?case by simp
next
  case (Cons x xs)
  have "length (filter P xs) \<le> length xs" by simp
  then have "length (filter P xs) \<noteq> Suc (length xs)" by linarith
  then show ?case using Cons by auto
qed

lemma has_keys_fetch:
  "has_keys (fetch_jwks r) \<longleftrightarrow>
     (\<exists>resp kvs. r = Inr resp \<and> resp_json resp = Inr (JDict kvs) \<and> ''keys'' \<in> fst ` set kvs)"
  by (auto simp: has_keys_def fetch_jwks_def py_bind_def await_response_def await_json_def
      split: sum.splits json.splits)

lemma jwks_returns:
  assumes "test_jwks_endpoint_load net dur c rs = Inr rs'"
  shows "\<exists>r. rs' = rs @ [r] \<and> name r = ''JWKS Load Test''
           \<and> (success r \<longleftrightarrow> int (length (filter has_keys (jwks_fanout net c))) = c)"
  using assms unfolding test_jwks_endpoint_load_def Let_def
  by (auto simp: py_bind_Inr split: if_splits)

lemma jwks_all_iff:
  "int (length (filter has_keys (jwks_fanout net c))) = c
   \<longleftrightarrow> 0 \<le> c \<and> (\<forall>i < nat c. has_keys (fetch_jwks (net i)))"
proof -
  have l: "length (jwks_fanout net c) = nat c"
    by (simp add: jwks_fanout_def gather_return_exceptions_def jwks_tasks_def)
  have s: "set (jwks_fanout net c) = (\<lambda>i. fetch_jwks (net i)) ` {0..<nat c}"
    by (simp add: jwks_fanout_def gather_return_exceptions_def jwks_tasks_def)
  show ?thesis
  proof (cases "0 \<le> c")
    case True
    then have "int (length (filter has_keys (jwks_fanout net c))) = c
        \<longleftrightarrow> length (filter has_keys (jwks_fanout net c)) = length (jwks_fanout net c)"
      using l by auto
    then show ?thesis using True by (auto simp: length_filter_eq_iff s)
  next
    case False
    then show ?thesis by auto
  qed
qed

text \<open>
  C6, amended. When the JWKS scenario returns, it has appended one \<open>TestResult\<close>, whose
  \<open>success\<close> is true exactly when every one of the responses parses as a JSON object with
  a \<open>keys\<close> field; the list under \<open>keys\<close> may be empty.
\<close>

theorem jwks_success_iff_keys_present:
  assumes "test_jwks_endpoint_load net dur concurrency self_results = Inr results'"
  shows "\<exists>r. results' = self_results @ [r]
           \<and> (success r \<longleftrightarrow>
                0 \<le> concurrency
                \<and> (\<forall>i < nat concurrency. \<exists>resp kvs. net i = Inr resp
                      \<and> resp_json resp = Inr (JDict kvs) \<and> ''keys'' \<in> fst ` set kvs))"
  using jwks_returns [OF assms] by (auto simp: jwks_all_iff has_keys_fetch)




lemma validate_returns:
  assumes "validate_metrics m rs = Inr rs'"
  shows "\<exists>r. rs' = rs @ [r]"
  using assms unfolding validate_metrics_def Let_def
  by (auto simp: py_bind_Inr)


text \<open>
  C5, amended. The verdict of the replay scenario depends on the log file. In a run that
  reaches the verdict (registration answered 200, a refresh token received, both refresh
  requests answered), \<open>success\<close> is true exactly when the second refresh is answered 401
  and the log has \<open>refresh_replay_detected\<close> and has \<open>198.51.100.99\<close> or \<open>client_ip\<close>; it
  depends neither on the status of the first refresh nor on the user-agent check. When
  the log file cannot be read, the exception leaves the scenario.
\<close>

theorem replay_verdict_reads_log:
  assumes "reg = Inr reg_resp" "resp_status reg_resp = 200"
    and "login = Inr login_resp" "resp_json login_resp = Inr (JDict kvs)"
    and "map_of kvs ''refresh_token'' = Some token" "truthy token"
    and "refresh1 = Inr resp1" "refresh2 = Inr resp2" "resp_text resp2 = Inr replay_body"
  shows "(\<exists>r. test_replay_detection_with_ip reg login refresh1 refresh2 dur (Inr logs) self_results
               = Inr (self_results @ [r])
            \<and> (success r \<longleftrightarrow>
                 resp_status resp2 = 401 \<and> contains ''refresh_replay_detected'' logs
                 \<and> (contains ''198.51.100.99'' logs \<or> contains ''client_ip'' logs)))
       \<and> test_replay_detection_with_ip reg login refresh1 refresh2 dur (Inl e) self_results = Inl e"
  using assms
  by (simp add: test_replay_detection_with_ip_def py_bind_simps await_response_def
      await_json_def await_text_def py_get_def Let_def)

text \<open>
  C5, as stated, fails: with the first refresh answered 200 and the second 401, a log
  without the replay event gives \<open>success = False\<close>.
\<close>

theorem replay_verdict_counterexample:
  "test_replay_detection_with_ip (replay_register passing_world) (replay_login passing_world)
     (response_of 200 ''{}'' (JDict [])) (response_of 401 ''replayed'' (JStr ''replayed''))
     (1 / 10) (Inr ''INFO started'') []
   = Inr [\<lparr>name = ''Replay Detection with Client IP'', success = False, duration = 1 / 10,
           details = ''Replay blocked, IP logged: False, UA logged: False'', metrics = None\<rparr>]"
  by code_simp

theorem replay_verdict_reads_log_witness:
  "(\<exists>r. test_replay_detection_with_ip (replay_register passing_world) (replay_login passing_world)
          (replay_refresh1 passing_world) (replay_refresh2 passing_world) 1
          (Inr ''refresh_replay_detected client_ip'') []
        = Inr [r] \<and> success r)
   \<and> test_replay_detection_with_ip (replay_register passing_world) (replay_login passing_world)
          (replay_refresh1 passing_world) (replay_refresh2 passing_world) 1
          (Inl (OSError ''No such file or directory'')) []
        = Inl (OSError ''No such file or directory'')"
proof -
  let ?reg = "\<lparr>resp_status = 200, resp_text = Inr ''{}'', resp_json = Inr (JDict [])\<rparr>"
  let ?login = "\<lparr>resp_status = 200, resp_text = Inr ''{}'',
                 resp_json = Inr (JDict [(''refresh_token'', JStr ''r1'')])\<rparr>"
  let ?second = "\<lparr>resp_status = 401, resp_text = Inr ''replayed'',
                  resp_json = Inr (JStr ''replayed'')\<rparr>"
  have h1: "replay_register passing_world = Inr ?reg"
    by (simp add: passing_world_def response_of_def)
  have h2: "resp_status ?reg = 200" by simp
  have h3: "replay_login passing_world = Inr ?login"
    by (simp add: passing_world_def response_of_def)
  have h4: "resp_json ?login = Inr (JDict [(''refresh_token'', JStr ''r1'')])" by simp
  have h5: "map_of [(''refresh_token'', JStr ''r1'')] ''refresh_token'' = Some (JStr ''r1'')"
    by simp
  have h6: "truthy (JStr ''r1'')" by (simp add: truthy_def)
  have h7: "replay_refresh1 passing_world = Inr ?reg"
    by (simp add: passing_world_def response_of_def)
  have h8: "replay_refresh2 passing_world = Inr ?second"
    by (simp add: passing_world_def response_of_def)
  have h9: "resp_text ?second = Inr ''replayed''" by simp
  show ?thesis
    using replay_verdict_reads_log [OF h1 h2 h3 h4 h5 h6 h7 h8 h9,
        where dur = 1 and logs = "''refresh_replay_detected client_ip''" and self_results = "[]"
          and e = "OSError ''No such file or directory''"]
    by (simp add: startswith_def)
qed








lemma run_scenarios_nonempty:
  assumes "run_scenarios w = Inr rs"
  shows "rs \<noteq> []"
proof -
  from assms obtain r1 r2 r3 r4 where
    a: "test_jwks_endpoint_load (jwks_net w) (jwks_time w) 100 [] = Inr r1"
    and b: "test_hash_concurrency_limit (hash_metrics_before w) (hash_net w) (hash_time w)
             (hash_metrics_after w) 60 r1 = Inr r2"
    and c: "test_replay_detection_with_ip (replay_register w) (replay_login w)
             (replay_refresh1 w) (replay_refresh2 w) (replay_time w) (replay_log w) r2 = Inr r3"
    and d: "test_rate_limiting (rate_register w) (rate_logins w) (rate_time w) r3 = Inr r4"
    and e: "validate_metrics (final_metrics w) r4 = Inr rs"
    unfolding run_scenarios_def by (auto simp: py_bind_Inr)
  from validate_returns [OF e] show ?thesis by auto
qed



text \<open>
  C1, amended. The exit status is 0 exactly when the run reaches the summary and every
  \<open>TestResult\<close> recorded in \<open>self.results\<close> has \<open>success\<close> true; it is 1 otherwise, and
  \<open>run_all_tests\<close> returns \<open>passed == total_tests\<close> over the recorded results. A scenario that
  returns before it records a \<open>TestResult\<close> does not count, and a run that an exception
  cuts short exits with 1.
\<close>

theorem exit_status_all_passed:
  "(main w = 0 \<longleftrightarrow> (\<exists>rs. run_scenarios w = Inr rs \<and> (\<forall>r \<in> set rs. success r)))
   \<and> (main w = 0 \<or> main w = 1)
   \<and> (\<forall>rs. run_scenarios w = Inr rs \<longrightarrow>
          run_all_tests w = Inr (length (filter success rs) = length rs))"
proof -
  have s: "run_all_tests w = Inr (length (filter success rs) = length rs)"
    if "run_scenarios w = Inr rs" for rs
    using that run_scenarios_nonempty [OF that]
    by (simp add: run_all_tests_def summary_def py_bind_simps Let_def)
  have a: "main w = 0 \<longleftrightarrow> (\<exists>rs. run_scenarios w = Inr rs \<and> (\<forall>r \<in> set rs. success r))"
  proof (cases "run_scenarios w")
    case (Inl e)
    then show ?thesis by (simp add: main_def run_all_tests_def py_bind_simps)
  next
    case (Inr rs)
    then show ?thesis using s [OF Inr] by (simp add: main_def length_filter_eq_iff)
  qed
  have b: "main w = 0 \<or> main w = 1"
    by (simp add: main_def split: sum.splits)
  show ?thesis using a b s by blast
qed

lemma jwks_one_key_run:
  "test_jwks_endpoint_load (\<lambda>i. one_key) (1 / 2) 100 []
     = Inr [\<lparr>name = ''JWKS Load Test'', success = True, duration = 1 / 2,
             details = ''100/100 requests succeeded in 0.50s (200.0 req/s)'', metrics = None\<rparr>]"
  by code_simp

theorem jwks_success_iff_keys_present_witness:
  "test_jwks_endpoint_load (\<lambda>i. one_key) (1 / 2) 100 []
     = Inr [\<lparr>name = ''JWKS Load Test'', success = True, duration = 1 / 2,
             details = ''100/100 requests succeeded in 0.50s (200.0 req/s)'', metrics = None\<rparr>]
   \<and> (\<exists>resp kvs. one_key = Inr resp \<and> resp_json resp = Inr (JDict kvs)
          \<and> ''keys'' \<in> fst ` set kvs)"
proof -
  from jwks_success_iff_keys_present [OF jwks_one_key_run]
  have "\<forall>i < nat 100. \<exists>resp kvs. one_key = Inr resp \<and> resp_json resp = Inr (JDict kvs)
          \<and> ''keys'' \<in> fst ` set kvs"
    by simp
  then have "\<exists>resp kvs. one_key = Inr resp \<and> resp_json resp = Inr (JDict kvs)
          \<and> ''keys'' \<in> fst ` set kvs"
    by (elim allE [of _ 0]) simp
  with jwks_one_key_run show ?thesis by simp
qed

text \<open>
  C6, as stated, fails: a batch in which every response has an empty list under \<open>keys\<close>
  passes.
\<close>

theorem jwks_empty_keys_counterexample:
  "test_jwks_endpoint_load (\<lambda>i. empty_keys) 1 100 []
     = Inr [\<lparr>name = ''JWKS Load Test'', success = True, duration = 1,
             details = ''100/100 requests succeeded in 1.00s (100.0 req/s)'', metrics = None\<rparr>]"
  by code_simp




lemma passing_run: "main passing_world = 0"
  by code_simp

theorem exit_status_all_passed_witness:
  "main passing_world = 0
   \<and> (\<exists>rs. run_scenarios passing_world = Inr rs \<and> (\<forall>r \<in> set rs. success r))
   \<and> run_all_tests passing_world = Inr True"
  using exit_status_all_passed [of passing_world] passing_run
  by (auto simp: length_filter_eq_iff)

text \<open>
  C1, as stated, fails: when the registration of the replay scenario is answered 500,
  the scenario prints its failure and returns without a \<open>TestResult\<close>; the four results
  recorded by the other scenarios all pass and the exit status is 0.
\<close>

theorem exit_status_skipped_scenario_counterexample:
  "main (passing_world\<lparr>replay_register := response_of 500 ''internal error'' JNone\<rparr>) = 0
   \<and> map_sum id (map name)
        (run_scenarios (passing_world\<lparr>replay_register := response_of 500 ''internal error'' JNone\<rparr>))
     = Inr [''JWKS Load Test'', ''Hash Concurrency Limiting'', ''Rate Limiting'',
            ''Metrics Validation'']"
  by code_simp

section \<open>The spoofed client address\<close>

lemmas hash_eval = py_hash_def never_minus_one_def signed64_def siphash13_def sip_blocks.simps
  absorb_def single_round_def add64_def rotl64_def

text \<open>
  C9, as stated, fails: the derivation is not a function of the identity alone. Under the
  secret of \<open>PYTHONHASHSEED=0\<close> and under that of \<open>PYTHONHASHSEED=1\<close> the same e-mail address
  gives two different headers.
\<close>

theorem forwarded_for_secret_counterexample:
  "forwarded_for (0, 0) ''load-123e4567-e89b-42d3-a456-426614174000@test.com''
     = ''192.0.2.180''
   \<and> forwarded_for (0xaed66ce184be2329, 0xebe9bbf1f1499052)
       ''load-123e4567-e89b-42d3-a456-426614174000@test.com''
     = ''192.0.2.191''"
  by (simp add: forwarded_for_def hash_eval str_int_def str_nat.simps digit_char_def)

text \<open>
  C9, amended. Within one process, that is under one hash secret, the header is a
  function of the e-mail address alone: the requests built for one address by either
  script carry the same header whatever the tenant and the user id, and the header is
  \<open>192.0.2.k\<close> with \<open>k = hash(email) % 255\<close> between 0 and 254.
\<close>

theorem forwarded_for_of_email:
  "req_headers (register_request secret tenant1 user1 e)
     = req_headers (register_request secret tenant2 user2 e)
   \<and> map_of (req_headers (register_request secret tenant1 user1 e)) ''X-Forwarded-For''
     = Some (forwarded_for secret (''load-'' @ e @ ''@test.com''))
   \<and> req_headers (extreme_request secret tenant1 user1 e)
     = req_headers (extreme_request secret tenant2 user2 e)
   \<and> map_of (req_headers (extreme_request secret tenant1 user1 e)) ''X-Forwarded-For''
     = Some (forwarded_for secret (''extreme-'' @ e @ ''@test.com''))
   \<and> forwarded_for secret email = ''192.0.2.'' @ str_int (py_hash secret email mod 255)
   \<and> 0 \<le> py_hash secret email mod 255 \<and> py_hash secret email mod 255 < 255"
  by (simp add: register_request_def extreme_request_def forwarded_for_def Let_def)

lemma forwarded_for_example:
  "forwarded_for (0, 0) ''load-123e4567-e89b-42d3-a456-426614174000@test.com'' = ''192.0.2.180''"
  by (simp add: forwarded_for_def hash_eval str_int_def str_nat.simps digit_char_def)

theorem forwarded_for_of_email_witness:
  "map_of (req_headers (register_request (0, 0) ''tenant-a'' ''user-a''
             ''123e4567-e89b-42d3-a456-426614174000'')) ''X-Forwarded-For''
     = Some ''192.0.2.180''
   \<and> req_headers (register_request (0, 0) ''tenant-a'' ''user-a''
             ''123e4567-e89b-42d3-a456-426614174000'')
     = req_headers (register_request (0, 0) ''tenant-b'' ''user-b''
             ''123e4567-e89b-42d3-a456-426614174000'')"
proof -
  note t = forwarded_for_of_email [of "(0, 0)" "''tenant-a''" "''user-a''"
      "''123e4567-e89b-42d3-a456-426614174000''" "''tenant-b''" "''user-b''" "[]"]
  from t have a: "req_headers (register_request (0, 0) ''tenant-a'' ''user-a''
             ''123e4567-e89b-42d3-a456-426614174000'')
     = req_headers (register_request (0, 0) ''tenant-b'' ''user-b''
             ''123e4567-e89b-42d3-a456-426614174000'')"
    by (rule conjunct1)
  from t have "map_of (req_headers (register_request (0, 0) ''tenant-a'' ''user-a''
             ''123e4567-e89b-42d3-a456-426614174000'')) ''X-Forwarded-For''
     = Some (forwarded_for (0, 0) (''load-'' @ ''123e4567-e89b-42d3-a456-426614174000''
               @ ''@test.com''))"
    by (elim conjE)
  then have b: "map_of (req_headers (register_request (0, 0) ''tenant-a'' ''user-a''
             ''123e4567-e89b-42d3-a456-426614174000'')) ''X-Forwarded-For''
     = Some ''192.0.2.180''"
    using forwarded_for_example by simp
  from b a show ?thesis by (rule conjI)
qed

end
